theory Spec2Isabelle
  imports Main "HOL-Library.AList"
begin

section \<open>Python values used by topo-fattree.py\<close>

text \<open>
  The script raises nothing of its own; the only exceptions its statements can raise are
  those of the dictionary reads \<^verbatim>\<open>cores[i]\<close>, \<^verbatim>\<open>aggs[i]\<close>, \<^verbatim>\<open>edges[i]\<close> (KeyError) and of
  the list read \<^verbatim>\<open>ipv6.split('/')[0]\<close> (IndexError).
\<close>

datatype error = KeyError | IndexError

definition bind_err :: "error + 'a \<Rightarrow> ('a \<Rightarrow> error + 'b) \<Rightarrow> error + 'b" where
  "bind_err r f = (case r of Inl e \<Rightarrow> Inl e | Inr x \<Rightarrow> f x)"

text \<open>\<^verbatim>\<open>'%s' % i\<close> for a non-negative integer \<open>i\<close>: its decimal digits.\<close>

definition digit_char :: "nat \<Rightarrow> char" where
  "digit_char d = ''0123456789'' ! d"

fun str_nat :: "nat \<Rightarrow> string" where
  "str_nat n = (if n < 10 then [digit_char n] else str_nat (n div 10) @ [digit_char (n mod 10)])"

declare str_nat.simps [simp del]

text \<open>A Python dict with integer keys: \<^verbatim>\<open>d[k] = v\<close> and \<^verbatim>\<open>d[k]\<close>.\<close>

type_synonym dict = "(nat \<times> string) list"

definition dict_set :: "dict \<Rightarrow> nat \<Rightarrow> string \<Rightarrow> dict" where
  "dict_set d k v = AList.update k v d"

definition dict_get :: "dict \<Rightarrow> nat \<Rightarrow> error + string" where
  "dict_get d k = (case map_of d k of None \<Rightarrow> Inl KeyError | Some v \<Rightarrow> Inr v)"

section \<open>The topology object (Mininet's Topo, as this script uses it)\<close>

text \<open>
  \<^verbatim>\<open>Topo\<close> is Mininet's class, not this repository's. The script uses three of its
  methods; each records what it is given and \<^verbatim>\<open>addSwitch\<close>/\<^verbatim>\<open>addHost\<close> return the node's name.
  Nodes are recorded with the keyword options passed at the call, links as the pair of
  endpoint names, all in call order.
\<close>

datatype node_cls = StratumBmv2Switch | IPv6Host

record switch =
  sw_name :: string
  sw_cls :: node_cls
  cpuport :: nat

record host =
  h_name :: string
  h_cls :: node_cls
  h_mac :: string
  h_ipv6 :: string
  h_ipv6_gw :: "string option"

record topo =
  switches :: "switch list"
  hosts :: "host list"
  links :: "(string \<times> string) list"

definition CPU_PORT :: nat where
  "CPU_PORT = 255"

text \<open>
  \<^verbatim>\<open>Topo.__init__(self, *args, **kwargs)\<close> is Mininet's code too. The constructor hands
  it its own arguments unread, and \<^verbatim>\<open>main\<close> calls \<^verbatim>\<open>FatTreeTopo()\<close> with none: the model is the
  graph that call starts from, an empty one. What Mininet does with other arguments is
  not modelled; the statements of the constructor that follow the call are
  \<open>FatTreeTopo_build\<close> below, which takes whatever topology the call has left.
\<close>

definition Topo_init :: "int list \<Rightarrow> (string \<times> int) list \<Rightarrow> topo" where
  "Topo_init args kwargs = \<lparr>switches = [], hosts = [], links = []\<rparr>"

definition addSwitch :: "string \<Rightarrow> node_cls \<Rightarrow> nat \<Rightarrow> topo \<Rightarrow> topo \<times> string" where
  "addSwitch name c p t =
     (t\<lparr>switches := switches t @ [\<lparr>sw_name = name, sw_cls = c, cpuport = p\<rparr>]\<rparr>, name)"

definition addHost :: "string \<Rightarrow> node_cls \<Rightarrow> string \<Rightarrow> string \<Rightarrow> string \<Rightarrow> topo \<Rightarrow> topo" where
  "addHost name c m a g t =
     t\<lparr>hosts := hosts t @ [\<lparr>h_name = name, h_cls = c, h_mac = m, h_ipv6 = a, h_ipv6_gw = Some g\<rparr>]\<rparr>"

definition addLink :: "string \<Rightarrow> string \<Rightarrow> topo \<Rightarrow> topo" where
  "addLink n1 n2 t = t\<lparr>links := links t @ [(n1, n2)]\<rparr>"

section \<open>FatTreeTopo.__init__\<close>

subsection \<open>Switches (lines 63 to 75)\<close>

text \<open>
  The state of the loop \<^verbatim>\<open>for i in range(1, 21)\<close>: the topology and the three local
  dictionaries. The body is three independent \<^verbatim>\<open>if\<close> statements, run one after the other.
\<close>

record sw_state =
  st_topo :: topo
  cores :: dict
  aggs :: dict
  edges :: dict

definition core_step :: "nat \<Rightarrow> sw_state \<Rightarrow> sw_state" where
  "core_step i s =
     (if i \<le> 4 then
        (let (t, core) = addSwitch (''s'' @ str_nat i @ ''_core'' @ str_nat i)
                           StratumBmv2Switch CPU_PORT (st_topo s)
         in s\<lparr>st_topo := t, cores := dict_set (cores s) i core\<rparr>)
      else s)"

definition agg_step :: "nat \<Rightarrow> sw_state \<Rightarrow> sw_state" where
  "agg_step i s =
     (if i > 4 \<and> i \<le> 12 then
        (let (t, agg) = addSwitch (''s'' @ str_nat i @ ''_agg'' @ str_nat (i - 4))
                          StratumBmv2Switch CPU_PORT (st_topo s)
         in s\<lparr>st_topo := t, aggs := dict_set (aggs s) (i - 4) agg\<rparr>)
      else s)"

definition edge_step :: "nat \<Rightarrow> sw_state \<Rightarrow> sw_state" where
  "edge_step i s =
     (if i > 12 then
        (let (t, edge) = addSwitch (''s'' @ str_nat i @ ''_edge'' @ str_nat (i - 12))
                           StratumBmv2Switch CPU_PORT (st_topo s)
         in s\<lparr>st_topo := t, edges := dict_set (edges s) (i - 12) edge\<rparr>)
      else s)"

definition switch_step :: "nat \<Rightarrow> sw_state \<Rightarrow> sw_state" where
  "switch_step i s = edge_step i (agg_step i (core_step i s))"

definition create_switches :: "topo \<Rightarrow> sw_state" where
  "create_switches t =
     fold switch_step [1..<21] \<lparr>st_topo = t, cores = [], aggs = [], edges = []\<rparr>"

subsection \<open>Hosts (lines 78 to 115)\<close>

definition host_stmts :: "(topo \<Rightarrow> topo) list" where
  "host_stmts =
    [addHost ''h1a'' IPv6Host ''00:00:00:00:00:1A'' ''2001:1:1::a/64'' ''2001:1:A::ff'',
     addHost ''h1b'' IPv6Host ''00:00:00:00:00:1B'' ''2001:1:1::b/64'' ''2001:1:B::ff'',
     addHost ''h1c'' IPv6Host ''00:00:00:00:00:1C'' ''2001:1:1::c/64'' ''2001:1:C::ff'',
     addHost ''h1d'' IPv6Host ''00:00:00:00:00:1D'' ''2001:1:1::d/64'' ''2001:1:D::ff'',
     addHost ''h2a'' IPv6Host ''00:00:00:00:00:2A'' ''2002:1:1::a/64'' ''2002:1:A::ff'',
     addHost ''h2b'' IPv6Host ''00:00:00:00:00:2B'' ''2002:1:1::b/64'' ''2002:1:B::ff'',
     addHost ''h2c'' IPv6Host ''00:00:00:00:00:2C'' ''2002:1:1::c/64'' ''2002:1:C::ff'',
     addHost ''h2d'' IPv6Host ''00:00:00:00:00:2D'' ''2002:1:1::d/64'' ''2002:1:D::ff'',
     addHost ''h3a'' IPv6Host ''00:00:00:00:00:3A'' ''2003:1:1::a/64'' ''2003:1:A::ff'',
     addHost ''h3b'' IPv6Host ''00:00:00:00:00:3B'' ''2003:1:1::b/64'' ''2003:1:B::ff'',
     addHost ''h3c'' IPv6Host ''00:00:00:00:00:3C'' ''2003:1:1::c/64'' ''2003:1:C::ff'',
     addHost ''h3d'' IPv6Host ''00:00:00:00:00:3D'' ''2003:1:1::d/64'' ''2003:1:D::ff'',
     addHost ''h4a'' IPv6Host ''00:00:00:00:00:4A'' ''2004:1:1::a/64'' ''2004:1:A::ff'',
     addHost ''h4b'' IPv6Host ''00:00:00:00:00:4B'' ''2004:1:1::b/64'' ''2004:1:B::ff'',
     addHost ''h4c'' IPv6Host ''00:00:00:00:00:4C'' ''2004:1:1::c/64'' ''2004:1:C::ff'',
     addHost ''h4d'' IPv6Host ''00:00:00:00:00:4D'' ''2004:1:1::d/64'' ''2004:1:D::ff'']"

definition create_hosts :: "topo \<Rightarrow> topo" where
  "create_hosts t = fold (\<lambda>stmt. stmt) host_stmts t"

subsection \<open>Links (lines 120 to 197)\<close>

text \<open>
  Each statement reads its endpoints from the dictionaries (left to right, either read
  may raise KeyError) and then adds the link. The variables \<^verbatim>\<open>h1a\<close> ... \<^verbatim>\<open>h4d\<close> hold the
  names returned by \<^verbatim>\<open>addHost\<close>, which are the names passed to it.
\<close>

definition link_core_agg :: "sw_state \<Rightarrow> nat \<Rightarrow> nat \<Rightarrow> topo \<Rightarrow> error + topo" where
  "link_core_agg s c a t =
     bind_err (dict_get (cores s) c) (\<lambda>n1.
     bind_err (dict_get (aggs s) a) (\<lambda>n2. Inr (addLink n1 n2 t)))"

definition link_agg_edge :: "sw_state \<Rightarrow> nat \<Rightarrow> nat \<Rightarrow> topo \<Rightarrow> error + topo" where
  "link_agg_edge s a e t =
     bind_err (dict_get (aggs s) a) (\<lambda>n1.
     bind_err (dict_get (edges s) e) (\<lambda>n2. Inr (addLink n1 n2 t)))"

definition link_edge_host :: "sw_state \<Rightarrow> nat \<Rightarrow> string \<Rightarrow> topo \<Rightarrow> error + topo" where
  "link_edge_host s e h t =
     bind_err (dict_get (edges s) e) (\<lambda>n1. Inr (addLink n1 h t))"

definition link_stmts :: "sw_state \<Rightarrow> (topo \<Rightarrow> error + topo) list" where
  "link_stmts s =
    [link_core_agg s 1 1, link_core_agg s 1 3,
     link_core_agg s 1 5, link_core_agg s 1 7,
     link_core_agg s 2 1, link_core_agg s 2 3,
     link_core_agg s 2 5, link_core_agg s 2 7,
     link_core_agg s 3 2, link_core_agg s 3 4,
     link_core_agg s 3 6, link_core_agg s 3 8,
     link_core_agg s 4 2, link_core_agg s 4 4,
     link_core_agg s 4 6, link_core_agg s 4 8,
     link_agg_edge s 1 1, link_agg_edge s 1 2,
     link_agg_edge s 2 1, link_agg_edge s 2 2,
     link_agg_edge s 3 3, link_agg_edge s 3 4,
     link_agg_edge s 4 3, link_agg_edge s 4 4,
     link_agg_edge s 5 5, link_agg_edge s 5 6,
     link_agg_edge s 6 5, link_agg_edge s 6 6,
     link_agg_edge s 7 7, link_agg_edge s 7 8,
     link_agg_edge s 8 7, link_agg_edge s 8 8,
     link_edge_host s 1 ''h1a'', link_edge_host s 1 ''h1b'',
     link_edge_host s 2 ''h1c'', link_edge_host s 2 ''h1d'',
     link_edge_host s 3 ''h2a'', link_edge_host s 3 ''h2b'',
     link_edge_host s 4 ''h2c'', link_edge_host s 4 ''h2d'',
     link_edge_host s 5 ''h3a'', link_edge_host s 5 ''h3b'',
     link_edge_host s 6 ''h3c'', link_edge_host s 6 ''h3d'',
     link_edge_host s 7 ''h4a'', link_edge_host s 7 ''h4b'',
     link_edge_host s 8 ''h4c'', link_edge_host s 8 ''h4d'']"

fun run_stmts :: "('s \<Rightarrow> error + 's) list \<Rightarrow> 's \<Rightarrow> error + 's" where
  "run_stmts [] t = Inr t"
| "run_stmts (stmt # rest) t = bind_err (stmt t) (run_stmts rest)"

definition create_links :: "sw_state \<Rightarrow> topo \<Rightarrow> error + topo" where
  "create_links s t = run_stmts (link_stmts s) t"

subsection \<open>The constructor\<close>

text \<open>
  The statements of \<^verbatim>\<open>__init__\<close> after the call of \<^verbatim>\<open>Topo.__init__\<close> (lines 62 to 197), on
  the topology \<open>t0\<close> that the call has left: none of them reads \<^verbatim>\<open>args\<close> or \<^verbatim>\<open>kwargs\<close>.
\<close>

definition FatTreeTopo_build :: "topo \<Rightarrow> error + topo" where
  "FatTreeTopo_build t0 =
     (let s = create_switches t0
      in create_links s (create_hosts (st_topo s)))"

text \<open>\<^verbatim>\<open>__init__(self, *args, **kwargs)\<close>: line 60, then the statements above.\<close>

definition FatTreeTopo_init :: "int list \<Rightarrow> (string \<times> int) list \<Rightarrow> error + topo" where
  "FatTreeTopo_init args kwargs = FatTreeTopo_build (Topo_init args kwargs)"

text \<open>\<^verbatim>\<open>FatTreeTopo()\<close>, as \<^verbatim>\<open>main\<close> calls it.\<close>

definition FatTreeTopo :: "error + topo" where
  "FatTreeTopo = FatTreeTopo_init [] []"

text \<open>
  The topology that call returns (the empty one, had it raised), and the dictionaries its
  switch loop leaves behind.
\<close>

definition fattree :: topo where
  "fattree = (case FatTreeTopo of Inl e \<Rightarrow> Topo_init [] [] | Inr t \<Rightarrow> t)"

definition fattree_switches :: sw_state where
  "fattree_switches = create_switches (Topo_init [] [])"

section \<open>IPv6Host.config\<close>

text \<open>
  The host as far as \<^verbatim>\<open>config\<close> touches it: the name of its default interface
  (\<^verbatim>\<open>'%s' % self.defaultIntf()\<close>), the shell commands given to \<^verbatim>\<open>self.cmd\<close> in order, and
  the \<^verbatim>\<open>updateIP\<close> attribute of the default interface.
\<close>

record node =
  defaultIntf :: string
  cmds :: "string list"
  updateIP :: "unit \<Rightarrow> error + string"

definition cmd :: "string \<Rightarrow> node \<Rightarrow> node" where
  "cmd c self = self\<lparr>cmds := cmds self @ [c]\<rparr>"

text \<open>\<^verbatim>\<open>s.split(sep)\<close> for a one-character separator: never an empty list.\<close>

fun split_chr :: "char \<Rightarrow> string \<Rightarrow> string list" where
  "split_chr sep [] = [[]]"
| "split_chr sep (c # cs) =
     (if c = sep then [] # split_chr sep cs
      else (case split_chr sep cs of
              [] \<Rightarrow> [[c]]
            | w # ws \<Rightarrow> (c # w) # ws))"

text \<open>\<^verbatim>\<open>xs[0]\<close>.\<close>

definition index0 :: "'a list \<Rightarrow> error + 'a" where
  "index0 xs = (case xs of [] \<Rightarrow> Inl IndexError | x # _ \<Rightarrow> Inr x)"

text \<open>The closure \<^verbatim>\<open>updateIP\<close> of line 47, for the \<^verbatim>\<open>ipv6\<close> it captures.\<close>

definition updateIP_closure :: "string \<Rightarrow> unit \<Rightarrow> error + string" where
  "updateIP_closure ipv6 u = index0 (split_chr CHR ''/'' ipv6)"

text \<open>\<^verbatim>\<open>if ipv6_gw:\<close> on a value that is None or a string.\<close>

definition truthy :: "string option \<Rightarrow> bool" where
  "truthy v = (case v of None \<Rightarrow> False | Some x \<Rightarrow> x \<noteq> [])"

definition route_step :: "string option \<Rightarrow> node \<Rightarrow> node" where
  "route_step ipv6_gw self =
     (if truthy ipv6_gw then
        (case ipv6_gw of
           None \<Rightarrow> self
         | Some gw \<Rightarrow> cmd (''ip -6 route add default via '' @ gw) self)
      else self)"

definition offload_step :: "string \<Rightarrow> node \<Rightarrow> node" where
  "offload_step attr self =
     cmd (''/sbin/ethtool --offload '' @ defaultIntf self @ '' '' @ attr @ '' off'') self"

text \<open>
  \<^verbatim>\<open>config(self, ipv6, ipv6_gw=None, **params)\<close>. Its first statement calls Mininet's
  \<^verbatim>\<open>Host.config(**params)\<close>, which is not this repository's code: it is the parameter
  \<open>super_config\<close>.
\<close>

definition config :: "(node \<Rightarrow> node) \<Rightarrow> string \<Rightarrow> string option \<Rightarrow> node \<Rightarrow> node" where
  "config super_config ipv6 ipv6_gw self0 =
     (let self1 = super_config self0;
          self2 = cmd (''ip -4 addr flush dev '' @ defaultIntf self1) self1;
          self3 = cmd (''ip -6 addr flush dev '' @ defaultIntf self2) self2;
          self4 = cmd (''ip -6 addr add '' @ ipv6 @ '' dev '' @ defaultIntf self3) self3;
          self5 = route_step ipv6_gw self4;
          self6 = fold offload_step [''rx'', ''tx'', ''sg''] self5
      in self6\<lparr>updateIP := updateIP_closure ipv6\<rparr>)"

text \<open>
  Mininet configures a host with the keyword options it was added with
  (\<^verbatim>\<open>config(**self.params)\<close>): for a host of this topology, its \<^verbatim>\<open>ipv6\<close> and \<^verbatim>\<open>ipv6_gw\<close>.
\<close>

definition configDefault :: "(node \<Rightarrow> node) \<Rightarrow> host \<Rightarrow> node \<Rightarrow> node" where
  "configDefault super_config h self = config super_config (h_ipv6 h) (h_ipv6_gw h) self"

section \<open>Reading the topology\<close>

text \<open>
  The tier of a switch is the dictionary that holds it: \<^verbatim>\<open>cores\<close>, \<^verbatim>\<open>aggs\<close> or \<^verbatim>\<open>edges\<close>.
\<close>

definition core_names :: "sw_state \<Rightarrow> string list" where
  "core_names s = map snd (cores s)"

definition agg_names :: "sw_state \<Rightarrow> string list" where
  "agg_names s = map snd (aggs s)"

definition edge_names :: "sw_state \<Rightarrow> string list" where
  "edge_names s = map snd (edges s)"

definition host_names :: "topo \<Rightarrow> string list" where
  "host_names t = map h_name (hosts t)"

text \<open>The switches, hosts and links of \<open>t\<close> after those of \<open>t0\<close>.\<close>

definition added_to :: "topo \<Rightarrow> topo \<Rightarrow> topo" where
  "added_to t0 t =
     \<lparr>switches = switches t0 @ switches t, hosts = hosts t0 @ hosts t,
      links = links t0 @ links t\<rparr>"

text \<open>
  Links are undirected: the neighbours of a node are the other ends of the links it is
  an end of, and two nodes are linked when one is a neighbour of the other.
\<close>

definition neighbours :: "topo \<Rightarrow> string \<Rightarrow> string list" where
  "neighbours t n =
     map snd (filter (\<lambda>(a, b). a = n) (links t)) @
     map fst (filter (\<lambda>(a, b). b = n) (links t))"

definition linked :: "topo \<Rightarrow> string \<Rightarrow> string \<Rightarrow> bool" where
  "linked t a b = (b \<in> set (neighbours t a))"

text \<open>The links with one end among \<open>xs\<close> and the other among \<open>ys\<close>.\<close>

definition links_between :: "topo \<Rightarrow> string list \<Rightarrow> string list \<Rightarrow> (string \<times> string) list" where
  "links_between t xs ys =
     filter (\<lambda>(a, b). (a \<in> set xs \<and> b \<in> set ys) \<or> (b \<in> set xs \<and> a \<in> set ys)) (links t)"

text \<open>How many different nodes among \<open>names\<close> the node \<open>n\<close> is linked to.\<close>

definition degree_in :: "topo \<Rightarrow> string \<Rightarrow> string list \<Rightarrow> nat" where
  "degree_in t n names = length (filter (\<lambda>m. m \<in> set names) (remdups (neighbours t n)))"

text \<open>The keys of a dictionary whose values are among \<open>ns\<close>, in key order.\<close>

definition keys_among :: "dict \<Rightarrow> string list \<Rightarrow> nat list" where
  "keys_among d ns = map fst (filter (\<lambda>(k, v). v \<in> set ns) d)"

text \<open>The indices of the aggregation switches that core \<open>c\<close> is linked to.\<close>

definition core_aggs :: "sw_state \<Rightarrow> topo \<Rightarrow> nat \<Rightarrow> nat list" where
  "core_aggs s t c =
     (case dict_get (cores s) c of
        Inl e \<Rightarrow> []
      | Inr cn \<Rightarrow> keys_among (aggs s) (neighbours t cn))"

text \<open>The indices of the edge switches that aggregation switch \<open>a\<close> is linked to.\<close>

definition agg_edges :: "sw_state \<Rightarrow> topo \<Rightarrow> nat \<Rightarrow> nat list" where
  "agg_edges s t a =
     (case dict_get (aggs s) a of
        Inl e \<Rightarrow> []
      | Inr an \<Rightarrow> keys_among (edges s) (neighbours t an))"

text \<open>
  The wiring rule of the specification, for groups of two: core \<open>c\<close> is in group
  \<open>(c - 1) div 2 + 1\<close>; aggregation switches \<open>2p - 1\<close> and \<open>2p\<close> form pod \<open>p\<close> (they are the
  two wired to the edge switches of the hosts \<^verbatim>\<open>hp*\<close>), at in-pod positions 1 and 2.
\<close>

definition core_group :: "nat \<Rightarrow> nat" where
  "core_group c = (c - 1) div 2 + 1"

definition pod_of :: "nat \<Rightarrow> nat" where
  "pod_of a = (a - 1) div 2 + 1"

definition pod_position :: "nat \<Rightarrow> nat" where
  "pod_position a = (a - 1) mod 2 + 1"

text \<open>
  The counts the specification states for size \<open>k\<close>: k core, k aggregation and k edge
  switches, \<open>k \<sqdot> (k div 2)\<close> hosts, \<open>k\<^sup>2\<close> aggregation-core links, \<open>k\<^sup>2\<close> aggregation-edge links
  and \<open>k\<^sup>2 div 2\<close> edge-host links.
\<close>

definition spec_counts :: "nat \<Rightarrow> sw_state \<Rightarrow> topo \<Rightarrow> bool" where
  "spec_counts k s t =
     (length (cores s) = k \<and> length (aggs s) = k \<and> length (edges s) = k \<and>
      length (hosts t) = k * (k div 2) \<and>
      length (links_between t (core_names s) (agg_names s)) = k * k \<and>
      length (links_between t (agg_names s) (edge_names s)) = k * k \<and>
      length (links_between t (edge_names s) (host_names t)) = k * k div 2)"

section \<open>Addresses\<close>

text \<open>
  A host's name is \<^verbatim>\<open>h\<close>, the digit of its pod and its letter: the pair (pod, letter) that
  its addresses are allocated from.
\<close>

definition pod_letter :: "host \<Rightarrow> (char \<times> char) option" where
  "pod_letter h = (case h_name h of [x, p, l] \<Rightarrow> if x = CHR ''h'' then Some (p, l) else None
                                   | _ \<Rightarrow> None)"

text \<open>\<^verbatim>\<open>c.upper()\<close> for an ASCII character.\<close>

definition upper_chr :: "char \<Rightarrow> char" where
  "upper_chr c =
     (let n = of_char c :: nat in if 97 \<le> n \<and> n \<le> 122 then char_of (n - 32) else c)"

text \<open>
  The allocation scheme that claim C10 reads off the 16 hosts, for pod \<open>p\<close> and letter \<open>l\<close>:
  name \<^verbatim>\<open>h{p}{l}\<close>, MAC \<^verbatim>\<open>00:00:00:00:00:{p}{L}\<close>, address \<^verbatim>\<open>200{p}:1:1::{l}/64\<close> and
  gateway \<^verbatim>\<open>200{p}:1:{L}::ff\<close>, with \<open>L\<close> the upper case of \<open>l\<close>.
\<close>

definition encoded_host :: "nat \<Rightarrow> char \<Rightarrow> host" where
  "encoded_host p l =
     \<lparr>h_name = ''h'' @ str_nat p @ [l],
      h_cls = IPv6Host,
      h_mac = ''00:00:00:00:00:'' @ str_nat p @ [upper_chr l],
      h_ipv6 = ''200'' @ str_nat p @ '':1:1::'' @ [l] @ ''/64'',
      h_ipv6_gw = Some (''200'' @ str_nat p @ '':1:'' @ [upper_chr l] @ ''::ff'')\<rparr>"

subsection \<open>The text form of an IPv6 address\<close>










text \<open>
  A host's own address is its \<^verbatim>\<open>ipv6\<close> option without the prefix length (what
  \<^verbatim>\<open>updateIP\<close> returns). The gateway shares the host's first \<open>n\<close> bits when both texts are
  addresses and their first \<open>n\<close> bits are equal.
\<close>

definition host_addr :: "host \<Rightarrow> string" where
  "host_addr h = takeWhile (\<lambda>c. c \<noteq> CHR ''/'') (h_ipv6 h)"


section \<open>Host configuration: the commands and their order\<close>

lemma cmds_cmd: "cmds (cmd c self) = cmds self @ [c]"
  by (simp add: cmd_def)

lemma defaultIntf_cmd: "defaultIntf (cmd c self) = defaultIntf self"
  by (simp add: cmd_def)

lemma defaultIntf_route_step: "defaultIntf (route_step ipv6_gw self) = defaultIntf self"
  by (simp add: route_step_def defaultIntf_cmd split: option.splits)

lemma cmds_route_step:
  "cmds (route_step ipv6_gw self) =
     cmds self @
     (case ipv6_gw of
        None \<Rightarrow> []
      | Some gw \<Rightarrow> if gw = [] then [] else [''ip -6 route add default via '' @ gw])"
  by (simp add: route_step_def truthy_def cmds_cmd split: option.splits)

lemma cmds_offload:
  "cmds (fold offload_step [''rx'', ''tx'', ''sg''] self) =
     cmds self @
     [''/sbin/ethtool --offload '' @ defaultIntf self @ '' rx off'',
      ''/sbin/ethtool --offload '' @ defaultIntf self @ '' tx off'',
      ''/sbin/ethtool --offload '' @ defaultIntf self @ '' sg off'']"
  by (simp add: offload_step_def cmds_cmd defaultIntf_cmd)

text \<open>
  Claim C6. \<^verbatim>\<open>config\<close> issues, after whatever Mininet's own \<^verbatim>\<open>Host.config\<close> issued, exactly
  these commands in this order: flush the IPv4 addresses, flush the IPv6 addresses, add
  the IPv6 address, then the default IPv6 route, then the three offload switches (rx, tx,
  sg). The route command is there exactly when a gateway is given (\<^verbatim>\<open>if ipv6_gw:\<close>, so
  neither \<^verbatim>\<open>None\<close> nor the empty string); without one the address command is followed
  directly by the first offload command.
\<close>

theorem config_command_order:
  "cmds (config super_config ipv6 ipv6_gw self) =
     cmds (super_config self) @
     [''ip -4 addr flush dev '' @ defaultIntf (super_config self),
      ''ip -6 addr flush dev '' @ defaultIntf (super_config self),
      ''ip -6 addr add '' @ ipv6 @ '' dev '' @ defaultIntf (super_config self)] @
     (case ipv6_gw of
        None \<Rightarrow> []
      | Some gw \<Rightarrow> if gw = [] then [] else [''ip -6 route add default via '' @ gw]) @
     [''/sbin/ethtool --offload '' @ defaultIntf (super_config self) @ '' rx off'',
      ''/sbin/ethtool --offload '' @ defaultIntf (super_config self) @ '' tx off'',
      ''/sbin/ethtool --offload '' @ defaultIntf (super_config self) @ '' sg off'']"
proof -
  define n4 where
    "n4 = cmd (''ip -6 addr add '' @ ipv6 @ '' dev '' @ defaultIntf (super_config self))
            (cmd (''ip -6 addr flush dev '' @ defaultIntf (super_config self))
              (cmd (''ip -4 addr flush dev '' @ defaultIntf (super_config self))
                (super_config self)))"
  have intf: "defaultIntf n4 = defaultIntf (super_config self)"
    by (simp add: n4_def defaultIntf_cmd)
  have c4: "cmds n4 =
      cmds (super_config self) @
      [''ip -4 addr flush dev '' @ defaultIntf (super_config self),
       ''ip -6 addr flush dev '' @ defaultIntf (super_config self),
       ''ip -6 addr add '' @ ipv6 @ '' dev '' @ defaultIntf (super_config self)]"
    by (simp add: n4_def cmds_cmd)
  have "config super_config ipv6 ipv6_gw self =
      (fold offload_step [''rx'', ''tx'', ''sg''] (route_step ipv6_gw n4))
        \<lparr>updateIP := updateIP_closure ipv6\<rparr>"
    by (simp add: config_def Let_def n4_def defaultIntf_cmd)
  then have "cmds (config super_config ipv6 ipv6_gw self) =
      cmds (fold offload_step [''rx'', ''tx'', ''sg''] (route_step ipv6_gw n4))"
    by simp
  also have "\<dots> = cmds (route_step ipv6_gw n4) @
      [''/sbin/ethtool --offload '' @ defaultIntf (super_config self) @ '' rx off'',
       ''/sbin/ethtool --offload '' @ defaultIntf (super_config self) @ '' tx off'',
       ''/sbin/ethtool --offload '' @ defaultIntf (super_config self) @ '' sg off'']"
    by (simp only: cmds_offload defaultIntf_route_step intf)
  finally show ?thesis
    by (simp only: cmds_route_step c4 append_assoc)
qed

section \<open>Host configuration: updateIP\<close>

lemma split_chr_first:
  "\<exists>ws. split_chr sep s = takeWhile (\<lambda>c. c \<noteq> sep) s # ws"
  by (induction s) (auto split: list.splits)

lemma updateIP_closure_eq:
  "updateIP_closure ipv6 u = Inr (takeWhile (\<lambda>c. c \<noteq> CHR ''/'') ipv6)"
proof -
  obtain ws where "split_chr CHR ''/'' ipv6 = takeWhile (\<lambda>c. c \<noteq> CHR ''/'') ipv6 # ws"
    using split_chr_first by blast
  then show ?thesis
    by (simp add: updateIP_closure_def index0_def)
qed

text \<open>
  Claim C9. After \<^verbatim>\<open>config\<close>, the interface's \<^verbatim>\<open>updateIP\<close> returns (and never raises) the
  configured address text up to, and without, its first \<^verbatim>\<open>/\<close>: the address without the
  prefix length. This holds for every address text, gateway and host, hence for every
  host that Mininet configures with its own options.
\<close>

theorem updateIP_strips_prefix_length:
  "updateIP (config super_config ipv6 ipv6_gw self) () =
     Inr (takeWhile (\<lambda>c. c \<noteq> CHR ''/'') ipv6) \<and>
   updateIP (configDefault super_config h self) () = Inr (host_addr h)"
  by (simp add: configDefault_def config_def Let_def updateIP_closure_eq host_addr_def)

section \<open>The generated topology, evaluated\<close>

text \<open>
  The constructor evaluated once: the dictionaries after the switch loop, and the
  topology it returns. No dictionary read raises.
\<close>

lemma fattree_switches_eval:
  "fattree_switches =
   \<lparr>st_topo =
     \<lparr>switches =
     [\<lparr>sw_name = ''s1_core1'', sw_cls = StratumBmv2Switch, cpuport = 255\<rparr>,
      \<lparr>sw_name = ''s2_core2'', sw_cls = StratumBmv2Switch, cpuport = 255\<rparr>,
      \<lparr>sw_name = ''s3_core3'', sw_cls = StratumBmv2Switch, cpuport = 255\<rparr>,
      \<lparr>sw_name = ''s4_core4'', sw_cls = StratumBmv2Switch, cpuport = 255\<rparr>,
      \<lparr>sw_name = ''s5_agg1'', sw_cls = StratumBmv2Switch, cpuport = 255\<rparr>,
      \<lparr>sw_name = ''s6_agg2'', sw_cls = StratumBmv2Switch, cpuport = 255\<rparr>,
      \<lparr>sw_name = ''s7_agg3'', sw_cls = StratumBmv2Switch, cpuport = 255\<rparr>,
      \<lparr>sw_name = ''s8_agg4'', sw_cls = StratumBmv2Switch, cpuport = 255\<rparr>,
      \<lparr>sw_name = ''s9_agg5'', sw_cls = StratumBmv2Switch, cpuport = 255\<rparr>,
      \<lparr>sw_name = ''s10_agg6'', sw_cls = StratumBmv2Switch, cpuport = 255\<rparr>,
      \<lparr>sw_name = ''s11_agg7'', sw_cls = StratumBmv2Switch, cpuport = 255\<rparr>,
      \<lparr>sw_name = ''s12_agg8'', sw_cls = StratumBmv2Switch, cpuport = 255\<rparr>,
      \<lparr>sw_name = ''s13_edge1'', sw_cls = StratumBmv2Switch, cpuport = 255\<rparr>,
      \<lparr>sw_name = ''s14_edge2'', sw_cls = StratumBmv2Switch, cpuport = 255\<rparr>,
      \<lparr>sw_name = ''s15_edge3'', sw_cls = StratumBmv2Switch, cpuport = 255\<rparr>,
      \<lparr>sw_name = ''s16_edge4'', sw_cls = StratumBmv2Switch, cpuport = 255\<rparr>,
      \<lparr>sw_name = ''s17_edge5'', sw_cls = StratumBmv2Switch, cpuport = 255\<rparr>,
      \<lparr>sw_name = ''s18_edge6'', sw_cls = StratumBmv2Switch, cpuport = 255\<rparr>,
      \<lparr>sw_name = ''s19_edge7'', sw_cls = StratumBmv2Switch, cpuport = 255\<rparr>,
      \<lparr>sw_name = ''s20_edge8'', sw_cls = StratumBmv2Switch, cpuport = 255\<rparr>],
      hosts = [], links = []\<rparr>,
   cores = [(1, ''s1_core1''), (2, ''s2_core2''), (3, ''s3_core3''), (4, ''s4_core4'')],
   aggs = [(1, ''s5_agg1''), (2, ''s6_agg2''), (3, ''s7_agg3''), (4, ''s8_agg4''), (5, ''s9_agg5''), (6, ''s10_agg6''), (7, ''s11_agg7''), (8, ''s12_agg8'')],
   edges = [(1, ''s13_edge1''), (2, ''s14_edge2''), (3, ''s15_edge3''), (4, ''s16_edge4''), (5, ''s17_edge5''), (6, ''s18_edge6''), (7, ''s19_edge7''), (8, ''s20_edge8'')]\<rparr>"
  by code_simp

lemma FatTreeTopo_eval:
  "FatTreeTopo =
   Inr \<lparr>switches =
     [\<lparr>sw_name = ''s1_core1'', sw_cls = StratumBmv2Switch, cpuport = 255\<rparr>,
      \<lparr>sw_name = ''s2_core2'', sw_cls = StratumBmv2Switch, cpuport = 255\<rparr>,
      \<lparr>sw_name = ''s3_core3'', sw_cls = StratumBmv2Switch, cpuport = 255\<rparr>,
      \<lparr>sw_name = ''s4_core4'', sw_cls = StratumBmv2Switch, cpuport = 255\<rparr>,
      \<lparr>sw_name = ''s5_agg1'', sw_cls = StratumBmv2Switch, cpuport = 255\<rparr>,
      \<lparr>sw_name = ''s6_agg2'', sw_cls = StratumBmv2Switch, cpuport = 255\<rparr>,
      \<lparr>sw_name = ''s7_agg3'', sw_cls = StratumBmv2Switch, cpuport = 255\<rparr>,
      \<lparr>sw_name = ''s8_agg4'', sw_cls = StratumBmv2Switch, cpuport = 255\<rparr>,
      \<lparr>sw_name = ''s9_agg5'', sw_cls = StratumBmv2Switch, cpuport = 255\<rparr>,
      \<lparr>sw_name = ''s10_agg6'', sw_cls = StratumBmv2Switch, cpuport = 255\<rparr>,
      \<lparr>sw_name = ''s11_agg7'', sw_cls = StratumBmv2Switch, cpuport = 255\<rparr>,
      \<lparr>sw_name = ''s12_agg8'', sw_cls = StratumBmv2Switch, cpuport = 255\<rparr>,
      \<lparr>sw_name = ''s13_edge1'', sw_cls = StratumBmv2Switch, cpuport = 255\<rparr>,
      \<lparr>sw_name = ''s14_edge2'', sw_cls = StratumBmv2Switch, cpuport = 255\<rparr>,
      \<lparr>sw_name = ''s15_edge3'', sw_cls = StratumBmv2Switch, cpuport = 255\<rparr>,
      \<lparr>sw_name = ''s16_edge4'', sw_cls = StratumBmv2Switch, cpuport = 255\<rparr>,
      \<lparr>sw_name = ''s17_edge5'', sw_cls = StratumBmv2Switch, cpuport = 255\<rparr>,
      \<lparr>sw_name = ''s18_edge6'', sw_cls = StratumBmv2Switch, cpuport = 255\<rparr>,
      \<lparr>sw_name = ''s19_edge7'', sw_cls = StratumBmv2Switch, cpuport = 255\<rparr>,
      \<lparr>sw_name = ''s20_edge8'', sw_cls = StratumBmv2Switch, cpuport = 255\<rparr>],
   hosts =
     [\<lparr>h_name = ''h1a'', h_cls = IPv6Host, h_mac = ''00:00:00:00:00:1A'', h_ipv6 = ''2001:1:1::a/64'', h_ipv6_gw = Some ''2001:1:A::ff''\<rparr>,
      \<lparr>h_name = ''h1b'', h_cls = IPv6Host, h_mac = ''00:00:00:00:00:1B'', h_ipv6 = ''2001:1:1::b/64'', h_ipv6_gw = Some ''2001:1:B::ff''\<rparr>,
      \<lparr>h_name = ''h1c'', h_cls = IPv6Host, h_mac = ''00:00:00:00:00:1C'', h_ipv6 = ''2001:1:1::c/64'', h_ipv6_gw = Some ''2001:1:C::ff''\<rparr>,
      \<lparr>h_name = ''h1d'', h_cls = IPv6Host, h_mac = ''00:00:00:00:00:1D'', h_ipv6 = ''2001:1:1::d/64'', h_ipv6_gw = Some ''2001:1:D::ff''\<rparr>,
      \<lparr>h_name = ''h2a'', h_cls = IPv6Host, h_mac = ''00:00:00:00:00:2A'', h_ipv6 = ''2002:1:1::a/64'', h_ipv6_gw = Some ''2002:1:A::ff''\<rparr>,
      \<lparr>h_name = ''h2b'', h_cls = IPv6Host, h_mac = ''00:00:00:00:00:2B'', h_ipv6 = ''2002:1:1::b/64'', h_ipv6_gw = Some ''2002:1:B::ff''\<rparr>,
      \<lparr>h_name = ''h2c'', h_cls = IPv6Host, h_mac = ''00:00:00:00:00:2C'', h_ipv6 = ''2002:1:1::c/64'', h_ipv6_gw = Some ''2002:1:C::ff''\<rparr>,
      \<lparr>h_name = ''h2d'', h_cls = IPv6Host, h_mac = ''00:00:00:00:00:2D'', h_ipv6 = ''2002:1:1::d/64'', h_ipv6_gw = Some ''2002:1:D::ff''\<rparr>,
      \<lparr>h_name = ''h3a'', h_cls = IPv6Host, h_mac = ''00:00:00:00:00:3A'', h_ipv6 = ''2003:1:1::a/64'', h_ipv6_gw = Some ''2003:1:A::ff''\<rparr>,
      \<lparr>h_name = ''h3b'', h_cls = IPv6Host, h_mac = ''00:00:00:00:00:3B'', h_ipv6 = ''2003:1:1::b/64'', h_ipv6_gw = Some ''2003:1:B::ff''\<rparr>,
      \<lparr>h_name = ''h3c'', h_cls = IPv6Host, h_mac = ''00:00:00:00:00:3C'', h_ipv6 = ''2003:1:1::c/64'', h_ipv6_gw = Some ''2003:1:C::ff''\<rparr>,
      \<lparr>h_name = ''h3d'', h_cls = IPv6Host, h_mac = ''00:00:00:00:00:3D'', h_ipv6 = ''2003:1:1::d/64'', h_ipv6_gw = Some ''2003:1:D::ff''\<rparr>,
      \<lparr>h_name = ''h4a'', h_cls = IPv6Host, h_mac = ''00:00:00:00:00:4A'', h_ipv6 = ''2004:1:1::a/64'', h_ipv6_gw = Some ''2004:1:A::ff''\<rparr>,
      \<lparr>h_name = ''h4b'', h_cls = IPv6Host, h_mac = ''00:00:00:00:00:4B'', h_ipv6 = ''2004:1:1::b/64'', h_ipv6_gw = Some ''2004:1:B::ff''\<rparr>,
      \<lparr>h_name = ''h4c'', h_cls = IPv6Host, h_mac = ''00:00:00:00:00:4C'', h_ipv6 = ''2004:1:1::c/64'', h_ipv6_gw = Some ''2004:1:C::ff''\<rparr>,
      \<lparr>h_name = ''h4d'', h_cls = IPv6Host, h_mac = ''00:00:00:00:00:4D'', h_ipv6 = ''2004:1:1::d/64'', h_ipv6_gw = Some ''2004:1:D::ff''\<rparr>],
   links =
     [(''s1_core1'', ''s5_agg1''), (''s1_core1'', ''s7_agg3''), (''s1_core1'', ''s9_agg5''), (''s1_core1'', ''s11_agg7''),
      (''s2_core2'', ''s5_agg1''), (''s2_core2'', ''s7_agg3''), (''s2_core2'', ''s9_agg5''), (''s2_core2'', ''s11_agg7''),
      (''s3_core3'', ''s6_agg2''), (''s3_core3'', ''s8_agg4''), (''s3_core3'', ''s10_agg6''), (''s3_core3'', ''s12_agg8''),
      (''s4_core4'', ''s6_agg2''), (''s4_core4'', ''s8_agg4''), (''s4_core4'', ''s10_agg6''), (''s4_core4'', ''s12_agg8''),
      (''s5_agg1'', ''s13_edge1''), (''s5_agg1'', ''s14_edge2''), (''s6_agg2'', ''s13_edge1''), (''s6_agg2'', ''s14_edge2''),
      (''s7_agg3'', ''s15_edge3''), (''s7_agg3'', ''s16_edge4''), (''s8_agg4'', ''s15_edge3''), (''s8_agg4'', ''s16_edge4''),
      (''s9_agg5'', ''s17_edge5''), (''s9_agg5'', ''s18_edge6''), (''s10_agg6'', ''s17_edge5''), (''s10_agg6'', ''s18_edge6''),
      (''s11_agg7'', ''s19_edge7''), (''s11_agg7'', ''s20_edge8''), (''s12_agg8'', ''s19_edge7''), (''s12_agg8'', ''s20_edge8''),
      (''s13_edge1'', ''h1a''), (''s13_edge1'', ''h1b''), (''s14_edge2'', ''h1c''), (''s14_edge2'', ''h1d''),
      (''s15_edge3'', ''h2a''), (''s15_edge3'', ''h2b''), (''s16_edge4'', ''h2c''), (''s16_edge4'', ''h2d''),
      (''s17_edge5'', ''h3a''), (''s17_edge5'', ''h3b''), (''s18_edge6'', ''h3c''), (''s18_edge6'', ''h3d''),
      (''s19_edge7'', ''h4a''), (''s19_edge7'', ''h4b''), (''s20_edge8'', ''h4c''), (''s20_edge8'', ''h4d'')]\<rparr>"
  by code_simp

lemma fattree_eval:
  "fattree =
   \<lparr>switches =
     [\<lparr>sw_name = ''s1_core1'', sw_cls = StratumBmv2Switch, cpuport = 255\<rparr>,
      \<lparr>sw_name = ''s2_core2'', sw_cls = StratumBmv2Switch, cpuport = 255\<rparr>,
      \<lparr>sw_name = ''s3_core3'', sw_cls = StratumBmv2Switch, cpuport = 255\<rparr>,
      \<lparr>sw_name = ''s4_core4'', sw_cls = StratumBmv2Switch, cpuport = 255\<rparr>,
      \<lparr>sw_name = ''s5_agg1'', sw_cls = StratumBmv2Switch, cpuport = 255\<rparr>,
      \<lparr>sw_name = ''s6_agg2'', sw_cls = StratumBmv2Switch, cpuport = 255\<rparr>,
      \<lparr>sw_name = ''s7_agg3'', sw_cls = StratumBmv2Switch, cpuport = 255\<rparr>,
      \<lparr>sw_name = ''s8_agg4'', sw_cls = StratumBmv2Switch, cpuport = 255\<rparr>,
      \<lparr>sw_name = ''s9_agg5'', sw_cls = StratumBmv2Switch, cpuport = 255\<rparr>,
      \<lparr>sw_name = ''s10_agg6'', sw_cls = StratumBmv2Switch, cpuport = 255\<rparr>,
      \<lparr>sw_name = ''s11_agg7'', sw_cls = StratumBmv2Switch, cpuport = 255\<rparr>,
      \<lparr>sw_name = ''s12_agg8'', sw_cls = StratumBmv2Switch, cpuport = 255\<rparr>,
      \<lparr>sw_name = ''s13_edge1'', sw_cls = StratumBmv2Switch, cpuport = 255\<rparr>,
      \<lparr>sw_name = ''s14_edge2'', sw_cls = StratumBmv2Switch, cpuport = 255\<rparr>,
      \<lparr>sw_name = ''s15_edge3'', sw_cls = StratumBmv2Switch, cpuport = 255\<rparr>,
      \<lparr>sw_name = ''s16_edge4'', sw_cls = StratumBmv2Switch, cpuport = 255\<rparr>,
      \<lparr>sw_name = ''s17_edge5'', sw_cls = StratumBmv2Switch, cpuport = 255\<rparr>,
      \<lparr>sw_name = ''s18_edge6'', sw_cls = StratumBmv2Switch, cpuport = 255\<rparr>,
      \<lparr>sw_name = ''s19_edge7'', sw_cls = StratumBmv2Switch, cpuport = 255\<rparr>,
      \<lparr>sw_name = ''s20_edge8'', sw_cls = StratumBmv2Switch, cpuport = 255\<rparr>],
   hosts =
     [\<lparr>h_name = ''h1a'', h_cls = IPv6Host, h_mac = ''00:00:00:00:00:1A'', h_ipv6 = ''2001:1:1::a/64'', h_ipv6_gw = Some ''2001:1:A::ff''\<rparr>,
      \<lparr>h_name = ''h1b'', h_cls = IPv6Host, h_mac = ''00:00:00:00:00:1B'', h_ipv6 = ''2001:1:1::b/64'', h_ipv6_gw = Some ''2001:1:B::ff''\<rparr>,
      \<lparr>h_name = ''h1c'', h_cls = IPv6Host, h_mac = ''00:00:00:00:00:1C'', h_ipv6 = ''2001:1:1::c/64'', h_ipv6_gw = Some ''2001:1:C::ff''\<rparr>,
      \<lparr>h_name = ''h1d'', h_cls = IPv6Host, h_mac = ''00:00:00:00:00:1D'', h_ipv6 = ''2001:1:1::d/64'', h_ipv6_gw = Some ''2001:1:D::ff''\<rparr>,
      \<lparr>h_name = ''h2a'', h_cls = IPv6Host, h_mac = ''00:00:00:00:00:2A'', h_ipv6 = ''2002:1:1::a/64'', h_ipv6_gw = Some ''2002:1:A::ff''\<rparr>,
      \<lparr>h_name = ''h2b'', h_cls = IPv6Host, h_mac = ''00:00:00:00:00:2B'', h_ipv6 = ''2002:1:1::b/64'', h_ipv6_gw = Some ''2002:1:B::ff''\<rparr>,
      \<lparr>h_name = ''h2c'', h_cls = IPv6Host, h_mac = ''00:00:00:00:00:2C'', h_ipv6 = ''2002:1:1::c/64'', h_ipv6_gw = Some ''2002:1:C::ff''\<rparr>,
      \<lparr>h_name = ''h2d'', h_cls = IPv6Host, h_mac = ''00:00:00:00:00:2D'', h_ipv6 = ''2002:1:1::d/64'', h_ipv6_gw = Some ''2002:1:D::ff''\<rparr>,
      \<lparr>h_name = ''h3a'', h_cls = IPv6Host, h_mac = ''00:00:00:00:00:3A'', h_ipv6 = ''2003:1:1::a/64'', h_ipv6_gw = Some ''2003:1:A::ff''\<rparr>,
      \<lparr>h_name = ''h3b'', h_cls = IPv6Host, h_mac = ''00:00:00:00:00:3B'', h_ipv6 = ''2003:1:1::b/64'', h_ipv6_gw = Some ''2003:1:B::ff''\<rparr>,
      \<lparr>h_name = ''h3c'', h_cls = IPv6Host, h_mac = ''00:00:00:00:00:3C'', h_ipv6 = ''2003:1:1::c/64'', h_ipv6_gw = Some ''2003:1:C::ff''\<rparr>,
      \<lparr>h_name = ''h3d'', h_cls = IPv6Host, h_mac = ''00:00:00:00:00:3D'', h_ipv6 = ''2003:1:1::d/64'', h_ipv6_gw = Some ''2003:1:D::ff''\<rparr>,
      \<lparr>h_name = ''h4a'', h_cls = IPv6Host, h_mac = ''00:00:00:00:00:4A'', h_ipv6 = ''2004:1:1::a/64'', h_ipv6_gw = Some ''2004:1:A::ff''\<rparr>,
      \<lparr>h_name = ''h4b'', h_cls = IPv6Host, h_mac = ''00:00:00:00:00:4B'', h_ipv6 = ''2004:1:1::b/64'', h_ipv6_gw = Some ''2004:1:B::ff''\<rparr>,
      \<lparr>h_name = ''h4c'', h_cls = IPv6Host, h_mac = ''00:00:00:00:00:4C'', h_ipv6 = ''2004:1:1::c/64'', h_ipv6_gw = Some ''2004:1:C::ff''\<rparr>,
      \<lparr>h_name = ''h4d'', h_cls = IPv6Host, h_mac = ''00:00:00:00:00:4D'', h_ipv6 = ''2004:1:1::d/64'', h_ipv6_gw = Some ''2004:1:D::ff''\<rparr>],
   links =
     [(''s1_core1'', ''s5_agg1''), (''s1_core1'', ''s7_agg3''), (''s1_core1'', ''s9_agg5''), (''s1_core1'', ''s11_agg7''),
      (''s2_core2'', ''s5_agg1''), (''s2_core2'', ''s7_agg3''), (''s2_core2'', ''s9_agg5''), (''s2_core2'', ''s11_agg7''),
      (''s3_core3'', ''s6_agg2''), (''s3_core3'', ''s8_agg4''), (''s3_core3'', ''s10_agg6''), (''s3_core3'', ''s12_agg8''),
      (''s4_core4'', ''s6_agg2''), (''s4_core4'', ''s8_agg4''), (''s4_core4'', ''s10_agg6''), (''s4_core4'', ''s12_agg8''),
      (''s5_agg1'', ''s13_edge1''), (''s5_agg1'', ''s14_edge2''), (''s6_agg2'', ''s13_edge1''), (''s6_agg2'', ''s14_edge2''),
      (''s7_agg3'', ''s15_edge3''), (''s7_agg3'', ''s16_edge4''), (''s8_agg4'', ''s15_edge3''), (''s8_agg4'', ''s16_edge4''),
      (''s9_agg5'', ''s17_edge5''), (''s9_agg5'', ''s18_edge6''), (''s10_agg6'', ''s17_edge5''), (''s10_agg6'', ''s18_edge6''),
      (''s11_agg7'', ''s19_edge7''), (''s11_agg7'', ''s20_edge8''), (''s12_agg8'', ''s19_edge7''), (''s12_agg8'', ''s20_edge8''),
      (''s13_edge1'', ''h1a''), (''s13_edge1'', ''h1b''), (''s14_edge2'', ''h1c''), (''s14_edge2'', ''h1d''),
      (''s15_edge3'', ''h2a''), (''s15_edge3'', ''h2b''), (''s16_edge4'', ''h2c''), (''s16_edge4'', ''h2d''),
      (''s17_edge5'', ''h3a''), (''s17_edge5'', ''h3b''), (''s18_edge6'', ''h3c''), (''s18_edge6'', ''h3d''),
      (''s19_edge7'', ''h4a''), (''s19_edge7'', ''h4b''), (''s20_edge8'', ''h4c''), (''s20_edge8'', ''h4d'')]\<rparr>"
  by (simp add: fattree_def FatTreeTopo_eval)

lemma FatTreeTopo_Inr: "FatTreeTopo = Inr fattree"
  by (simp add: fattree_eval FatTreeTopo_eval)

text \<open>
  With \<open>Topo_init\<close> the empty graph for every argument list, the constructor returns the
  same topology for all of them.
\<close>

lemma FatTreeTopo_init_args: "FatTreeTopo_init args kwargs = Inr fattree"
proof -
  have "FatTreeTopo_init args kwargs = FatTreeTopo"
    by (simp add: FatTreeTopo_init_def FatTreeTopo_def Topo_init_def)
  then show ?thesis
    by (simp add: FatTreeTopo_Inr)
qed

lemma create_switches_args: "create_switches (Topo_init args kwargs) = fattree_switches"
  by (simp add: fattree_switches_def Topo_init_def)

subsection \<open>The constructor on any starting topology\<close>

text \<open>
  Every statement of the constructor only adds to the topology, and what it adds does
  not depend on what is there: started on \<open>t0\<close>, the constructor adds to it what it adds
  to the empty topology.
\<close>

lemma added_to_empty: "added_to t0 (Topo_init args kwargs) = t0"
  by (simp add: added_to_def Topo_init_def)

lemma core_step_added:
  "core_step i (s\<lparr>st_topo := added_to t0 (st_topo s)\<rparr>) =
     (core_step i s)\<lparr>st_topo := added_to t0 (st_topo (core_step i s))\<rparr>"
  by (simp add: core_step_def addSwitch_def added_to_def Let_def)

lemma agg_step_added:
  "agg_step i (s\<lparr>st_topo := added_to t0 (st_topo s)\<rparr>) =
     (agg_step i s)\<lparr>st_topo := added_to t0 (st_topo (agg_step i s))\<rparr>"
  by (simp add: agg_step_def addSwitch_def added_to_def Let_def)

lemma edge_step_added:
  "edge_step i (s\<lparr>st_topo := added_to t0 (st_topo s)\<rparr>) =
     (edge_step i s)\<lparr>st_topo := added_to t0 (st_topo (edge_step i s))\<rparr>"
  by (simp add: edge_step_def addSwitch_def added_to_def Let_def)

lemma switch_step_added:
  "switch_step i (s\<lparr>st_topo := added_to t0 (st_topo s)\<rparr>) =
     (switch_step i s)\<lparr>st_topo := added_to t0 (st_topo (switch_step i s))\<rparr>"
  by (simp only: switch_step_def core_step_added agg_step_added edge_step_added)

lemma fold_switch_step_added:
  "fold switch_step xs (s\<lparr>st_topo := added_to t0 (st_topo s)\<rparr>) =
     (fold switch_step xs s)\<lparr>st_topo := added_to t0 (st_topo (fold switch_step xs s))\<rparr>"
  by (induction xs arbitrary: s) (simp_all add: switch_step_added)

lemma create_switches_added:
  "create_switches t0 =
     fattree_switches\<lparr>st_topo := added_to t0 (st_topo fattree_switches)\<rparr>"
proof -
  have "\<lparr>st_topo = t0, cores = [], aggs = [], edges = []\<rparr> =
      \<lparr>st_topo = Topo_init [] [], cores = [], aggs = [], edges = []\<rparr>
        \<lparr>st_topo := added_to t0
           (st_topo \<lparr>st_topo = Topo_init [] [], cores = [], aggs = [], edges = []\<rparr>)\<rparr>"
    by (simp add: added_to_empty)
  then have "create_switches t0 =
      fold switch_step [1..<21]
        (\<lparr>st_topo = Topo_init [] [], cores = [], aggs = [], edges = []\<rparr>
           \<lparr>st_topo := added_to t0
              (st_topo \<lparr>st_topo = Topo_init [] [], cores = [], aggs = [], edges = []\<rparr>)\<rparr>)"
    by (simp only: create_switches_def)
  then show ?thesis
    by (simp only: fold_switch_step_added fattree_switches_def create_switches_def)
qed

lemma addHost_added:
  "addHost n c m a g (added_to t0 t) = added_to t0 (addHost n c m a g t)"
  by (simp add: addHost_def added_to_def)

lemma host_stmts_added:
  "list_all (\<lambda>stmt. \<forall>t. stmt (added_to t0 t) = added_to t0 (stmt t)) host_stmts"
  by (simp add: host_stmts_def addHost_added)

lemma fold_stmts_added:
  "list_all (\<lambda>stmt. \<forall>t. stmt (added_to t0 t) = added_to t0 (stmt t)) xs \<Longrightarrow>
   fold (\<lambda>stmt. stmt) xs (added_to t0 t) = added_to t0 (fold (\<lambda>stmt. stmt) xs t)"
  by (induction xs arbitrary: t) simp_all

lemma create_hosts_added: "create_hosts (added_to t0 t) = added_to t0 (create_hosts t)"
  unfolding create_hosts_def by (rule fold_stmts_added) (rule host_stmts_added)

lemma addLink_added: "addLink a b (added_to t0 t) = added_to t0 (addLink a b t)"
  by (simp add: addLink_def added_to_def)

lemma link_core_agg_added:
  "link_core_agg s c a (added_to t0 t) = map_sum id (added_to t0) (link_core_agg s c a t)"
  by (simp add: link_core_agg_def bind_err_def addLink_added split: sum.splits)

lemma link_agg_edge_added:
  "link_agg_edge s a e (added_to t0 t) = map_sum id (added_to t0) (link_agg_edge s a e t)"
  by (simp add: link_agg_edge_def bind_err_def addLink_added split: sum.splits)

lemma link_edge_host_added:
  "link_edge_host s e h (added_to t0 t) = map_sum id (added_to t0) (link_edge_host s e h t)"
  by (simp add: link_edge_host_def bind_err_def addLink_added split: sum.splits)

lemma link_stmts_added:
  "list_all (\<lambda>stmt. \<forall>t. stmt (added_to t0 t) = map_sum id (added_to t0) (stmt t))
            (link_stmts s)"
  by (simp add: link_stmts_def link_core_agg_added link_agg_edge_added link_edge_host_added)

lemma link_dicts:
  "link_core_agg (s\<lparr>st_topo := t\<rparr>) c a = link_core_agg s c a"
  "link_agg_edge (s\<lparr>st_topo := t\<rparr>) a e = link_agg_edge s a e"
  "link_edge_host (s\<lparr>st_topo := t\<rparr>) e h = link_edge_host s e h"
  by (rule ext, simp add: link_core_agg_def link_agg_edge_def link_edge_host_def)+

lemma link_stmts_dicts: "link_stmts (s\<lparr>st_topo := t\<rparr>) = link_stmts s"
  by (simp add: link_stmts_def link_dicts)

lemma run_stmts_added:
  "list_all (\<lambda>stmt. \<forall>t. stmt (added_to t0 t) = map_sum id (added_to t0) (stmt t)) xs \<Longrightarrow>
   run_stmts xs (added_to t0 t) = map_sum id (added_to t0) (run_stmts xs t)"
  by (induction xs arbitrary: t) (auto simp: bind_err_def split: sum.splits)

lemma FatTreeTopo_build_added: "FatTreeTopo_build t0 = Inr (added_to t0 fattree)"
proof -
  have "FatTreeTopo_build t0 =
      create_links fattree_switches (create_hosts (added_to t0 (st_topo fattree_switches)))"
    by (simp add: FatTreeTopo_build_def create_switches_added Let_def create_links_def
        link_stmts_dicts)
  also have "\<dots> = map_sum id (added_to t0)
      (create_links fattree_switches (create_hosts (st_topo fattree_switches)))"
    by (simp only: create_hosts_added create_links_def run_stmts_added [OF link_stmts_added])
  also have "\<dots> = map_sum id (added_to t0) (FatTreeTopo_init [] [])"
    by (simp add: FatTreeTopo_init_def FatTreeTopo_build_def fattree_switches_def Let_def)
  finally show ?thesis
    by (simp add: FatTreeTopo_init_args)
qed

subsection \<open>Counts\<close>

lemma switch_counts:
  "length (cores fattree_switches) = 4"
  "length (aggs fattree_switches) = 8"
  "length (edges fattree_switches) = 8"
  by (simp_all add: fattree_switches_eval)

lemma node_link_counts:
  "length (switches fattree) = 20"
  "length (hosts fattree) = 16"
  "length (links fattree) = 48"
  by (simp_all add: fattree_eval)

lemma core_agg_link_count:
  "length (links_between fattree (core_names fattree_switches) (agg_names fattree_switches)) = 16"
  unfolding fattree_eval fattree_switches_eval by code_simp

lemma agg_edge_link_count:
  "length (links_between fattree (agg_names fattree_switches) (edge_names fattree_switches)) = 16"
  unfolding fattree_eval fattree_switches_eval by code_simp

lemma edge_host_link_count:
  "length (links_between fattree (edge_names fattree_switches) (host_names fattree)) = 16"
  unfolding fattree_eval fattree_switches_eval by code_simp

lemma switch_names:
  "map sw_name (switches fattree) =
     core_names fattree_switches @ agg_names fattree_switches @ edge_names fattree_switches"
  by (simp add: fattree_eval fattree_switches_eval core_names_def agg_names_def edge_names_def)

lemma node_names_distinct:
  "distinct (core_names fattree_switches @ agg_names fattree_switches @
             edge_names fattree_switches @ host_names fattree)"
  unfolding fattree_eval fattree_switches_eval by code_simp

subsection \<open>Degrees\<close>

lemma edge_degrees:
  "list_all (\<lambda>e. degree_in fattree e (host_names fattree) = 2 \<and>
                 degree_in fattree e (agg_names fattree_switches) = 2)
            (edge_names fattree_switches)"
  unfolding fattree_eval fattree_switches_eval by code_simp

lemma agg_degrees:
  "list_all (\<lambda>a. degree_in fattree a (edge_names fattree_switches) = 2 \<and>
                 degree_in fattree a (core_names fattree_switches) = 2)
            (agg_names fattree_switches)"
  unfolding fattree_eval fattree_switches_eval by code_simp

lemma core_degrees:
  "list_all (\<lambda>c. degree_in fattree c (agg_names fattree_switches) = 4)
            (core_names fattree_switches)"
  unfolding fattree_eval fattree_switches_eval by code_simp

subsection \<open>Wiring\<close>

lemma dict_keys:
  "map fst (cores fattree_switches) = [1, 2, 3, 4]"
  "map fst (aggs fattree_switches) = [1, 2, 3, 4, 5, 6, 7, 8]"
  "map fst (edges fattree_switches) = [1, 2, 3, 4, 5, 6, 7, 8]"
  by (simp_all add: fattree_switches_eval)

lemma core_aggs_eval:
  "map (core_aggs fattree_switches fattree) [1, 2, 3, 4] =
     [[1, 3, 5, 7], [1, 3, 5, 7], [2, 4, 6, 8], [2, 4, 6, 8]]"
  unfolding fattree_eval fattree_switches_eval by code_simp

lemma agg_edges_eval:
  "map (agg_edges fattree_switches fattree) [1, 2, 3, 4, 5, 6, 7, 8] =
     [[1, 2], [1, 2], [3, 4], [3, 4], [5, 6], [5, 6], [7, 8], [7, 8]]"
  unfolding fattree_eval fattree_switches_eval by code_simp

lemma core_aggs_rule:
  "c \<in> {1, 2, 3, 4} \<Longrightarrow>
   core_aggs fattree_switches fattree c =
     filter (\<lambda>a. pod_position a = core_group c) [1, 2, 3, 4, 5, 6, 7, 8]"
  using core_aggs_eval by (auto simp: pod_position_def core_group_def)

lemma agg_edges_rule:
  "a \<in> {1, 2, 3, 4, 5, 6, 7, 8} \<Longrightarrow>
   agg_edges fattree_switches fattree a =
     filter (\<lambda>e. pod_of e = pod_of a) [1, 2, 3, 4, 5, 6, 7, 8]"
  using agg_edges_eval by (auto simp: pod_of_def)

subsection \<open>Hosts\<close>

lemma hosts_encoded:
  "hosts fattree = concat (map (\<lambda>p. map (encoded_host p) ''abcd'') [1..<5])"
  unfolding fattree_eval by code_simp

lemma macs_distinct: "distinct (map h_mac (hosts fattree))"
  unfolding fattree_eval by code_simp

lemma addrs_distinct: "distinct (map h_ipv6 (hosts fattree))"
  unfolding fattree_eval by code_simp

lemma pod_letters_distinct: "distinct (map pod_letter (hosts fattree))"
  unfolding fattree_eval by code_simp

lemma pod_letters_defined: "list_all (\<lambda>h. pod_letter h \<noteq> None) (hosts fattree)"
  unfolding fattree_eval by code_simp



lemma cpu_ports: "list_all (\<lambda>sw. cpuport sw = 255) (switches fattree)"
  unfolding fattree_eval by code_simp

section \<open>Claims about the generated topology\<close>

text \<open>
  Claim C1, as the specification states it, fails: for \<open>k = 4\<close> it asks for 4 aggregation
  switches, 4 edge switches, 8 hosts and 8 edge-host links, and the constructor makes 8,
  8, 16 and 16.
\<close>

theorem fattree_counts_not_spec:
  "(case FatTreeTopo_init [] [] of
      Inl e \<Rightarrow> False
    | Inr t \<Rightarrow> \<not> spec_counts 4 (create_switches (Topo_init [] [])) t \<and>
               length (aggs (create_switches (Topo_init [] []))) = 8 \<and>
               length (edges (create_switches (Topo_init [] []))) = 8 \<and>
               length (hosts t) = 16)"
  by (simp add: FatTreeTopo_init_args create_switches_args spec_counts_def
      switch_counts node_link_counts)

text \<open>
  Claim C1, amended. Whatever the arguments, the constructor returns a topology with
  exactly 4 core, 8 aggregation and 8 edge switches (20 switches, all of different
  names, and different from the 16 host names), 16 hosts, and 48 links: 16 between
  core and aggregation switches, 16 between aggregation and edge switches and 16
  between edge switches and hosts.
\<close>

theorem fattree_counts:
  "\<exists>s t. s = create_switches (Topo_init args kwargs) \<and>
         FatTreeTopo_init args kwargs = Inr t \<and>
         length (cores s) = 4 \<and> length (aggs s) = 8 \<and> length (edges s) = 8 \<and>
         length (hosts t) = 16 \<and>
         map sw_name (switches t) = core_names s @ agg_names s @ edge_names s \<and>
         distinct (core_names s @ agg_names s @ edge_names s @ host_names t) \<and>
         length (links_between t (core_names s) (agg_names s)) = 16 \<and>
         length (links_between t (agg_names s) (edge_names s)) = 16 \<and>
         length (links_between t (edge_names s) (host_names t)) = 16 \<and>
         length (links t) = 48"
  using switch_counts node_link_counts core_agg_link_count agg_edge_link_count
    edge_host_link_count switch_names node_names_distinct
  by (simp add: FatTreeTopo_init_args create_switches_args)

text \<open>
  Claim C7, as stated, fails: the constructor has no size parameter and no InvalidSize
  error. Called with 3 (odd), 0 or -2, positionally or as keyword \<^verbatim>\<open>k\<close>, it returns the
  same complete topology as with 4; and its own statements raise nothing, whatever
  topology \<^verbatim>\<open>Topo.__init__\<close> has left them.
\<close>

theorem odd_size_generates:
  "FatTreeTopo_init [3] [] = FatTreeTopo_init [4] [] \<and>
   \<not> isl (FatTreeTopo_init [3] []) \<and>
   \<not> isl (FatTreeTopo_init [0] []) \<and>
   \<not> isl (FatTreeTopo_init [- 2] []) \<and>
   \<not> isl (FatTreeTopo_init [] [(''k'', 3)]) \<and>
   length (switches (projr (FatTreeTopo_init [3] []))) = 20 \<and>
   length (hosts (projr (FatTreeTopo_init [3] []))) = 16 \<and>
   length (links (projr (FatTreeTopo_init [3] []))) = 48 \<and>
   (\<forall>t0. \<not> isl (FatTreeTopo_build t0))"
  by (simp add: FatTreeTopo_init_args node_link_counts FatTreeTopo_build_added)

text \<open>
  Claim C7, amended. Generation has no size parameter and no InvalidSize error: the
  constructor hands its arguments, unread, to Mininet's \<^verbatim>\<open>Topo.__init__\<close>, and none of its
  own statements rejects anything. On whatever topology \<open>t0\<close> that call has left, they
  raise no error of their own (every dictionary read finds its key; \<^verbatim>\<open>addSwitch\<close>, \<^verbatim>\<open>addHost\<close>
  and \<^verbatim>\<open>addLink\<close> are Mininet's and record what they are given) and add the complete fixed
  set of nodes and links, the 20 switches, 16 hosts and 48 links of the call without
  arguments: an odd, zero or negative size is not rejected by this code, and no partial
  topology is produced.
\<close>

theorem constructor_has_no_size_check:
  "FatTreeTopo_init args kwargs = FatTreeTopo_build (Topo_init args kwargs) \<and>
   FatTreeTopo_init [] [] = Inr fattree \<and>
   length (switches fattree) = 20 \<and> length (hosts fattree) = 16 \<and>
   length (links fattree) = 48 \<and>
   (\<exists>t. FatTreeTopo_build t0 = Inr t \<and>
        switches t = switches t0 @ switches fattree \<and>
        hosts t = hosts t0 @ hosts fattree \<and>
        links t = links t0 @ links fattree)"
proof -
  have forwarded: "FatTreeTopo_init args kwargs = FatTreeTopo_build (Topo_init args kwargs)"
    by (rule FatTreeTopo_init_def)
  have plain: "FatTreeTopo_init [] [] = Inr fattree"
    by (rule FatTreeTopo_init_args)
  have built: "\<exists>t. FatTreeTopo_build t0 = Inr t \<and>
      switches t = switches t0 @ switches fattree \<and>
      hosts t = hosts t0 @ hosts fattree \<and>
      links t = links t0 @ links fattree"
    by (simp add: FatTreeTopo_build_added added_to_def)
  show ?thesis
    by (intro conjI forwarded plain built node_link_counts)
qed

text \<open>
  Claim C10. The hosts of the generated topology are, in order, those that the scheme
  gives for the pods 1 to 4 and the letters a to d: the host of pod \<open>p\<close> and letter \<open>l\<close>
  is named \<^verbatim>\<open>h{p}{l}\<close> and has MAC \<^verbatim>\<open>00:00:00:00:00:{p}{L}\<close>, address
  \<^verbatim>\<open>200{p}:1:1::{l}/64\<close> and gateway \<^verbatim>\<open>200{p}:1:{L}::ff\<close>.
\<close>

theorem hosts_encode_pod_letter:
  "\<exists>t. FatTreeTopo_init args kwargs = Inr t \<and>
       hosts t = concat (map (\<lambda>p. map (encoded_host p) ''abcd'') [1..<5])"
  using hosts_encoded by (simp add: FatTreeTopo_init_args)

text \<open>
  Claim C8. Every switch of the generated topology (its switches are exactly the core,
  aggregation and edge switches) is created with the CPU port 255, the constant
  \<^verbatim>\<open>CPU_PORT\<close>.
\<close>

theorem all_switches_cpu_port:
  "\<exists>s t. s = create_switches (Topo_init args kwargs) \<and>
         FatTreeTopo_init args kwargs = Inr t \<and>
         map sw_name (switches t) = core_names s @ agg_names s @ edge_names s \<and>
         (\<forall>sw \<in> set (switches t). cpuport sw = 255 \<and> cpuport sw = CPU_PORT)"
  using cpu_ports switch_names
  by (simp add: FatTreeTopo_init_args create_switches_args list_all_iff CPU_PORT_def)

theorem all_switches_cpu_port_witness:
  "\<exists>t. FatTreeTopo_init [] [] = Inr t \<and>
       \<lparr>sw_name = ''s1_core1'', sw_cls = StratumBmv2Switch, cpuport = 255\<rparr> \<in> set (switches t) \<and>
       cpuport \<lparr>sw_name = ''s1_core1'', sw_cls = StratumBmv2Switch, cpuport = 255\<rparr> = CPU_PORT"
proof -
  obtain s t where t: "FatTreeTopo_init [] [] = Inr t"
    and all: "\<forall>sw \<in> set (switches t). cpuport sw = 255 \<and> cpuport sw = CPU_PORT"
    using all_switches_cpu_port [of "[]" "[]"] by blast
  have "t = fattree"
    using t by (simp add: FatTreeTopo_init_args)
  then have "\<lparr>sw_name = ''s1_core1'', sw_cls = StratumBmv2Switch, cpuport = 255\<rparr> \<in> set (switches t)"
    by (simp add: fattree_eval)
  with t all show ?thesis by blast
qed

text \<open>
  Claim C2. In the generated topology every edge switch is linked to exactly 2 hosts
  and 2 aggregation switches, every aggregation switch to exactly 2 edge switches and 2
  core switches, and every core switch to exactly 4 aggregation switches.
\<close>

theorem fattree_degrees:
  "\<exists>s t. s = create_switches (Topo_init args kwargs) \<and>
         FatTreeTopo_init args kwargs = Inr t \<and>
         (\<forall>e \<in> set (edge_names s).
            degree_in t e (host_names t) = 2 \<and> degree_in t e (agg_names s) = 2) \<and>
         (\<forall>a \<in> set (agg_names s).
            degree_in t a (edge_names s) = 2 \<and> degree_in t a (core_names s) = 2) \<and>
         (\<forall>c \<in> set (core_names s). degree_in t c (agg_names s) = 4)"
  using edge_degrees agg_degrees core_degrees
  by (simp add: FatTreeTopo_init_args create_switches_args list_all_iff)

theorem fattree_degrees_witness:
  "\<exists>t. FatTreeTopo_init [] [] = Inr t \<and>
       ''s13_edge1'' \<in> set (edge_names (create_switches (Topo_init [] []))) \<and>
       degree_in t ''s13_edge1'' (host_names t) = 2 \<and>
       degree_in t ''s13_edge1'' (agg_names (create_switches (Topo_init [] []))) = 2 \<and>
       ''s5_agg1'' \<in> set (agg_names (create_switches (Topo_init [] []))) \<and>
       degree_in t ''s5_agg1'' (edge_names (create_switches (Topo_init [] []))) = 2 \<and>
       degree_in t ''s5_agg1'' (core_names (create_switches (Topo_init [] []))) = 2 \<and>
       ''s1_core1'' \<in> set (core_names (create_switches (Topo_init [] []))) \<and>
       degree_in t ''s1_core1'' (agg_names (create_switches (Topo_init [] []))) = 4"
proof -
  have e: "''s13_edge1'' \<in> set (edge_names (create_switches (Topo_init [] [])))"
    by (simp add: create_switches_args fattree_switches_eval edge_names_def)
  have a: "''s5_agg1'' \<in> set (agg_names (create_switches (Topo_init [] [])))"
    by (simp add: create_switches_args fattree_switches_eval agg_names_def)
  have c: "''s1_core1'' \<in> set (core_names (create_switches (Topo_init [] [])))"
    by (simp add: create_switches_args fattree_switches_eval core_names_def)
  from fattree_degrees [of "[]" "[]"] e a c show ?thesis
    by blast
qed

text \<open>
  Claim C3. The dictionaries hold the cores 1 to 4 and the aggregation switches 1 to 8.
  Cores 1 and 2 are each linked to the aggregation switches 1, 3, 5 and 7, cores 3 and
  4 to 2, 4, 6 and 8, and there is no other core-aggregation link (16 in all). This is
  the rule of the specification: core \<open>c\<close>, of group \<open>(c - 1) div 2 + 1\<close>, is linked to
  exactly the aggregation switches at that position of their pod, where the pods are
  the pairs of aggregation switches \<open>2p - 1\<close>, \<open>2p\<close>: each aggregation switch is linked to
  exactly the edge switches of its own pod.
\<close>

theorem core_agg_wiring:
  "\<exists>s t. s = create_switches (Topo_init args kwargs) \<and>
         FatTreeTopo_init args kwargs = Inr t \<and>
         map fst (cores s) = [1, 2, 3, 4] \<and>
         map fst (aggs s) = [1, 2, 3, 4, 5, 6, 7, 8] \<and>
         core_aggs s t 1 = [1, 3, 5, 7] \<and> core_aggs s t 2 = [1, 3, 5, 7] \<and>
         core_aggs s t 3 = [2, 4, 6, 8] \<and> core_aggs s t 4 = [2, 4, 6, 8] \<and>
         length (links_between t (core_names s) (agg_names s)) = 16 \<and>
         (\<forall>c \<in> set (map fst (cores s)).
            core_aggs s t c = filter (\<lambda>a. pod_position a = core_group c) (map fst (aggs s))) \<and>
         (\<forall>a \<in> set (map fst (aggs s)).
            agg_edges s t a = filter (\<lambda>e. pod_of e = pod_of a) (map fst (edges s)))"
proof -
  have rules:
    "\<forall>c \<in> set (map fst (cores fattree_switches)).
       core_aggs fattree_switches fattree c =
         filter (\<lambda>a. pod_position a = core_group c) (map fst (aggs fattree_switches))"
    "\<forall>a \<in> set (map fst (aggs fattree_switches)).
       agg_edges fattree_switches fattree a =
         filter (\<lambda>e. pod_of e = pod_of a) (map fst (edges fattree_switches))"
    using core_aggs_rule agg_edges_rule by (simp_all only: dict_keys set_simps) blast+
  have ev: "core_aggs fattree_switches fattree 1 = [1, 3, 5, 7]"
    "core_aggs fattree_switches fattree 2 = [1, 3, 5, 7]"
    "core_aggs fattree_switches fattree 3 = [2, 4, 6, 8]"
    "core_aggs fattree_switches fattree 4 = [2, 4, 6, 8]"
    using core_aggs_eval by simp_all
  show ?thesis
    unfolding FatTreeTopo_init_args create_switches_args
    by (rule exI [of _ fattree_switches], rule exI [of _ fattree])
      (intro conjI refl dict_keys ev core_agg_link_count rules)
qed

theorem core_agg_wiring_witness:
  "\<exists>t. FatTreeTopo_init [] [] = Inr t \<and>
       3 \<in> set (map fst (cores (create_switches (Topo_init [] [])))) \<and>
       core_group 3 = 2 \<and>
       filter (\<lambda>a. pod_position a = 2) [1, 2, 3, 4, 5, 6, 7, 8] = [2, 4, 6, 8] \<and>
       core_aggs (create_switches (Topo_init [] [])) t 3 = [2, 4, 6, 8] \<and>
       2 \<in> set (map fst (aggs (create_switches (Topo_init [] [])))) \<and>
       agg_edges (create_switches (Topo_init [] [])) t 2 = [1, 2]"
proof -
  have k: "map fst (cores (create_switches (Topo_init [] []))) = [1, 2, 3, 4]"
    "map fst (aggs (create_switches (Topo_init [] []))) = [1, 2, 3, 4, 5, 6, 7, 8]"
    "map fst (edges (create_switches (Topo_init [] []))) = [1, 2, 3, 4, 5, 6, 7, 8]"
    by (simp_all add: create_switches_args dict_keys)
  have g: "core_group 3 = 2"
    "filter (\<lambda>a. pod_position a = 2) [1, 2, 3, 4, 5, 6, 7, 8] = [2, 4, 6, 8]"
    "filter (\<lambda>e. pod_of e = pod_of 2) [1, 2, 3, 4, 5, 6, 7, 8] = [1, 2]"
    by (simp_all add: core_group_def pod_position_def pod_of_def)
  obtain t where t: "FatTreeTopo_init [] [] = Inr t"
    and cr: "\<forall>c \<in> set (map fst (cores (create_switches (Topo_init [] [])))).
        core_aggs (create_switches (Topo_init [] [])) t c =
          filter (\<lambda>a. pod_position a = core_group c)
            (map fst (aggs (create_switches (Topo_init [] []))))"
    and ar: "\<forall>a \<in> set (map fst (aggs (create_switches (Topo_init [] [])))).
        agg_edges (create_switches (Topo_init [] [])) t a =
          filter (\<lambda>e. pod_of e = pod_of a) (map fst (edges (create_switches (Topo_init [] []))))"
    using core_agg_wiring [of "[]" "[]"] by blast
  have m3: "3 \<in> set (map fst (cores (create_switches (Topo_init [] []))))"
    by (simp only: k) simp
  have m2: "2 \<in> set (map fst (aggs (create_switches (Topo_init [] []))))"
    by (simp only: k) simp
  from cr m3 have "core_aggs (create_switches (Topo_init [] [])) t 3 =
      filter (\<lambda>a. pod_position a = core_group 3)
        (map fst (aggs (create_switches (Topo_init [] []))))"
    by blast
  then have c3: "core_aggs (create_switches (Topo_init [] [])) t 3 = [2, 4, 6, 8]"
    by (simp only: k g)
  from ar m2 have "agg_edges (create_switches (Topo_init [] [])) t 2 =
      filter (\<lambda>e. pod_of e = pod_of 2) (map fst (edges (create_switches (Topo_init [] []))))"
    by blast
  then have a2: "agg_edges (create_switches (Topo_init [] [])) t 2 = [1, 2]"
    by (simp only: k g)
  from t m3 g(1) g(2) c3 m2 a2 show ?thesis
    by blast
qed

subsection \<open>The first hosts\<close>

lemma first_hosts:
  "take 2 (hosts fattree) =
     [\<lparr>h_name = ''h1a'', h_cls = IPv6Host, h_mac = ''00:00:00:00:00:1A'',
       h_ipv6 = ''2001:1:1::a/64'', h_ipv6_gw = Some ''2001:1:A::ff''\<rparr>,
      \<lparr>h_name = ''h1b'', h_cls = IPv6Host, h_mac = ''00:00:00:00:00:1B'',
       h_ipv6 = ''2001:1:1::b/64'', h_ipv6_gw = Some ''2001:1:B::ff''\<rparr>]"
  unfolding fattree_eval by code_simp

lemma first_host:
  "hosts fattree ! 0 =
     \<lparr>h_name = ''h1a'', h_cls = IPv6Host, h_mac = ''00:00:00:00:00:1A'',
      h_ipv6 = ''2001:1:1::a/64'', h_ipv6_gw = Some ''2001:1:A::ff''\<rparr>"
proof -
  have "hosts fattree ! 0 = take 2 (hosts fattree) ! 0"
    by simp
  then show ?thesis
    by (simp only: first_hosts nth_Cons_0)
qed

lemma second_host:
  "hosts fattree ! 1 =
     \<lparr>h_name = ''h1b'', h_cls = IPv6Host, h_mac = ''00:00:00:00:00:1B'',
      h_ipv6 = ''2001:1:1::b/64'', h_ipv6_gw = Some ''2001:1:B::ff''\<rparr>"
proof -
  have "hosts fattree ! 1 = take 2 (hosts fattree) ! 1"
    by simp
  then show ?thesis
    by (simp only: first_hosts) simp
qed





text \<open>
  Claim C4. Two generated hosts at different positions have different MAC addresses
  and different IPv6 addresses. Every generated host has a (pod, letter) pair, and the
  allocation is a fixed function of it: whatever the arguments of a second run of the
  constructor, a host of the second run with the (pod, letter) of a host of the first
  has the same MAC address, IPv6 address and gateway.
\<close>

theorem address_allocation_injective:
  "\<exists>t. FatTreeTopo_init args kwargs = Inr t \<and>
       (\<forall>i < length (hosts t). \<forall>j < length (hosts t). i \<noteq> j \<longrightarrow>
          h_mac (hosts t ! i) \<noteq> h_mac (hosts t ! j) \<and>
          h_ipv6 (hosts t ! i) \<noteq> h_ipv6 (hosts t ! j)) \<and>
       (\<forall>h \<in> set (hosts t). pod_letter h \<noteq> None) \<and>
       (\<forall>args' kwargs'. \<exists>t'. FatTreeTopo_init args' kwargs' = Inr t' \<and>
          (\<forall>h \<in> set (hosts t). \<forall>h' \<in> set (hosts t').
             pod_letter h = pod_letter h' \<longrightarrow>
               h_mac h = h_mac h' \<and> h_ipv6 h = h_ipv6 h' \<and> h_ipv6_gw h = h_ipv6_gw h'))"
proof -
  have inj: "\<forall>i < length (hosts fattree). \<forall>j < length (hosts fattree). i \<noteq> j \<longrightarrow>
      h_mac (hosts fattree ! i) \<noteq> h_mac (hosts fattree ! j) \<and>
      h_ipv6 (hosts fattree ! i) \<noteq> h_ipv6 (hosts fattree ! j)"
    using macs_distinct addrs_distinct by (simp add: distinct_conv_nth)
  have defined: "\<forall>h \<in> set (hosts fattree). pod_letter h \<noteq> None"
    using pod_letters_defined by (simp add: list_all_iff)
  have "inj_on pod_letter (set (hosts fattree))"
    using pod_letters_distinct by (simp add: distinct_map)
  then have same: "\<forall>h \<in> set (hosts fattree). \<forall>h' \<in> set (hosts fattree).
      pod_letter h = pod_letter h' \<longrightarrow>
        h_mac h = h_mac h' \<and> h_ipv6 h = h_ipv6 h' \<and> h_ipv6_gw h = h_ipv6_gw h'"
    by (auto dest: inj_onD)
  show ?thesis
    unfolding FatTreeTopo_init_args using inj defined same by blast
qed

theorem address_allocation_injective_witness:
  "\<exists>t t'. FatTreeTopo_init [] [] = Inr t \<and> FatTreeTopo_init [4] [(''k'', 4)] = Inr t' \<and>
       length (hosts t) = 16 \<and>
       h_name (hosts t ! 0) = ''h1a'' \<and> h_name (hosts t ! 1) = ''h1b'' \<and>
       h_mac (hosts t ! 0) \<noteq> h_mac (hosts t ! 1) \<and>
       h_ipv6 (hosts t ! 0) \<noteq> h_ipv6 (hosts t ! 1) \<and>
       hosts t ! 0 \<in> set (hosts t) \<and> hosts t' ! 0 \<in> set (hosts t') \<and>
       pod_letter (hosts t ! 0) = Some (CHR ''1'', CHR ''a'') \<and>
       pod_letter (hosts t' ! 0) = Some (CHR ''1'', CHR ''a'') \<and>
       h_mac (hosts t ! 0) = h_mac (hosts t' ! 0) \<and>
       h_ipv6 (hosts t ! 0) = h_ipv6 (hosts t' ! 0) \<and>
       h_ipv6_gw (hosts t ! 0) = h_ipv6_gw (hosts t' ! 0)"
proof -
  obtain t where t: "FatTreeTopo_init [] [] = Inr t"
    and inj: "\<forall>i < length (hosts t). \<forall>j < length (hosts t). i \<noteq> j \<longrightarrow>
      h_mac (hosts t ! i) \<noteq> h_mac (hosts t ! j) \<and>
      h_ipv6 (hosts t ! i) \<noteq> h_ipv6 (hosts t ! j)"
    and runs: "\<forall>args' kwargs'. \<exists>t'. FatTreeTopo_init args' kwargs' = Inr t' \<and>
      (\<forall>h \<in> set (hosts t). \<forall>h' \<in> set (hosts t').
         pod_letter h = pod_letter h' \<longrightarrow>
           h_mac h = h_mac h' \<and> h_ipv6 h = h_ipv6 h' \<and> h_ipv6_gw h = h_ipv6_gw h')"
    using address_allocation_injective [of "[]" "[]"] by blast
  obtain t' where t': "FatTreeTopo_init [4] [(''k'', 4)] = Inr t'"
    and same: "\<forall>h \<in> set (hosts t). \<forall>h' \<in> set (hosts t').
      pod_letter h = pod_letter h' \<longrightarrow>
        h_mac h = h_mac h' \<and> h_ipv6 h = h_ipv6 h' \<and> h_ipv6_gw h = h_ipv6_gw h'"
    using runs by blast
  have tf: "t = fattree" "t' = fattree"
    using t t' by (simp_all add: FatTreeTopo_init_args)
  have len: "length (hosts t) = 16" "length (hosts t') = 16"
    by (simp_all add: tf node_link_counts)
  have n: "h_name (hosts t ! 0) = ''h1a''" "h_name (hosts t ! 1) = ''h1b''"
    by (simp_all only: tf first_host second_host) simp_all
  have p: "pod_letter (hosts t ! 0) = Some (CHR ''1'', CHR ''a'')"
    "pod_letter (hosts t' ! 0) = Some (CHR ''1'', CHR ''a'')"
    by (simp_all add: tf first_host pod_letter_def)
  have m: "hosts t ! 0 \<in> set (hosts t)" "hosts t' ! 0 \<in> set (hosts t')"
    using len by simp_all
  have d: "h_mac (hosts t ! 0) \<noteq> h_mac (hosts t ! 1) \<and>
      h_ipv6 (hosts t ! 0) \<noteq> h_ipv6 (hosts t ! 1)"
    using inj [rule_format, of 0 1] len by simp
  have e: "h_mac (hosts t ! 0) = h_mac (hosts t' ! 0) \<and>
      h_ipv6 (hosts t ! 0) = h_ipv6 (hosts t' ! 0) \<and>
      h_ipv6_gw (hosts t ! 0) = h_ipv6_gw (hosts t' ! 0)"
    using same m p by simp
  from t t' len(1) n d m p e show ?thesis
    by blast
qed




end
